theory Spec2Isabelle
  imports Main "HOL-Library.Word"
begin

section \<open>The VPP renderer: endpoint-group rendering and the uplink\<close>

text \<open>
  A shallow embedding of \<^verbatim>\<open>VPP::EndPointGroupManager\<close> (\<^verbatim>\<open>get_fwd_info\<close>,
  \<^verbatim>\<open>mk_mcast_tunnel\<close>, \<^verbatim>\<open>mk_bvi\<close>, \<^verbatim>\<open>mk_group\<close>, \<^verbatim>\<open>handle_update\<close>) and of
  \<^verbatim>\<open>VPP::Uplink\<close> (\<^verbatim>\<open>mk_interface\<close>, \<^verbatim>\<open>configure_tap\<close>, \<^verbatim>\<open>handle_dhcp_event\<close>,
  \<^verbatim>\<open>handle_dhcp_event_i\<close>, \<^verbatim>\<open>configure\<close>, \<^verbatim>\<open>set\<close>).

  Conventions.
  \<^item> The client database of the object model (\<^verbatim>\<open>VOM::OM\<close>), the id generator and the
    uplink are explicit state, passed in and returned.
  \<^item> A C++ exception is a value of \<open>exn\<close>; dereferencing an empty \<^verbatim>\<open>shared_ptr\<close> is
    undefined behaviour and is the value \<open>NullDereference\<close> of \<open>fault\<close>: the run
    stops there and no destructor runs.
  \<^item> Values of library types (addresses, prefixes, dataplane objects) are written as
    the constructor expression that builds them in the source, with the arguments the
    source passes. What a library constructor does with its arguments (parsing,
    narrowing, validation) is outside this development.
\<close>

subsection \<open>Library values\<close>

datatype URI = URI (toString: string)

text \<open>\<^verbatim>\<open>boost::asio::ip::address\<close>, by the text it is parsed from.\<close>

datatype address = Address string

datatype mac_address_t = MacAddress string

text \<open>
  \<^verbatim>\<open>route::prefix_t\<close>: built from an address and a length, or from an address alone
  (the host prefix); \<^verbatim>\<open>low()\<close> and \<open>high()\<close> are the library's first and last
  address of the prefix.
\<close>

datatype prefix_t =
    Prefix address "8 word"
  | HostPrefix address
  | Low prefix_t
  | High prefix_t

fun pfx_address :: "prefix_t \<Rightarrow> address" where
  "pfx_address (Prefix a l) = a"
| "pfx_address (HostPrefix a) = a"
| "pfx_address (Low p) = pfx_address p"
| "pfx_address (High p) = pfx_address p"

text \<open>\<^verbatim>\<open>std::to_string\<close> on an unsigned value: its decimal digits.\<close>

definition digit_char :: "nat \<Rightarrow> char" where
  "digit_char d = ''0123456789'' ! d"

function to_string :: "nat \<Rightarrow> string" where
  "to_string n =
     (if n < 10 then [digit_char n] else to_string (n div 10) @ [digit_char (n mod 10)])"
  by pat_completeness auto
termination
  by (relation "measure id") auto

declare to_string.simps [simp del]

subsection \<open>Dataplane objects (\<^verbatim>\<open>VOM\<close>)\<close>

datatype itf_type_t =
  type_BVI | type_VXLAN | type_VLAN | type_TAP | type_BOND | type_ETHERNET | type_AFPACKET

datatype admin_state_t = DOWN | UP

datatype learning_mode_t = learning_ON | learning_OFF

datatype vxlan_mode_t = mode_STANDARD | mode_GBP

datatype bond_mode_t = mode_LACP

datatype bond_lb_t = lb_L2

datatype route_domain = VomRouteDomain (rd_table_id: "32 word")

datatype bridge_domain = VomBridgeDomain (bd_id: "32 word") learning_mode_t

text \<open>
  The interface classes. \<open>Interface\<close> is \<^verbatim>\<open>VOM::interface\<close> itself, with the route
  domain it was built in and the link address given by \<^verbatim>\<open>set\<close>, when either was
  given. \<open>VxlanTunnel\<close> carries the multicast interface and the mode of the
  five-argument constructor; the three-argument one leaves them at none and standard.
\<close>

datatype interface =
    Interface string itf_type_t admin_state_t "route_domain option" "mac_address_t option"
  | SubInterface interface admin_state_t "32 word"
  | VxlanTunnel address address "32 word" "interface option" vxlan_mode_t
  | TapInterface string itf_type_t admin_state_t prefix_t
  | BondInterface string admin_state_t bond_mode_t bond_lb_t

text \<open>\<^verbatim>\<open>interface::type()\<close>: each subclass passes its own type to the base class.\<close>

fun itf_type :: "interface \<Rightarrow> itf_type_t" where
  "itf_type (Interface n t a rd m) = t"
| "itf_type (SubInterface p a v) = type_VLAN"
| "itf_type (VxlanTunnel s d v m md) = type_VXLAN"
| "itf_type (TapInterface n t a p) = t"
| "itf_type (BondInterface n a m l) = type_BOND"

text \<open>\<^verbatim>\<open>interface::set(const l2_address_t&)\<close>, used on the plain interface only.\<close>

fun set_l2_address :: "interface \<Rightarrow> mac_address_t \<Rightarrow> interface" where
  "set_l2_address (Interface n t a rd m) mac = Interface n t a rd (Some mac)"
| "set_l2_address i mac = i"

text \<open>\<^verbatim>\<open>itf.l2_address()\<close>: the link address of that interface.\<close>

datatype l2_address_t = L2AddressOf interface

datatype l2_vtr_op_t = L2_VTR_POP_1

datatype l2_binding = L2Binding interface bridge_domain "(l2_vtr_op_t \<times> 32 word) option"

datatype gbp_route_domain =
  GbpRouteDomain (grd_get_route_domain: route_domain) "interface option" "interface option"

datatype gbp_bridge_domain =
  GbpBridgeDomain (gbd_get_bridge_domain: bridge_domain) (get_bvi: interface)
    "interface option" "interface option"

datatype gbp_endpoint_group =
  GbpEndpointGroup "32 word" "interface option"
    (get_route_domain: gbp_route_domain) (get_bridge_domain: gbp_bridge_domain)

datatype nh_proto_t = nh_IPV4 | nh_IPV6

datatype special_t = special_LOCAL

datatype path = PathVia interface nh_proto_t | PathSpecial special_t

datatype itf_flags_t = flags_ACCEPT | flags_FORWARD

datatype igmp_binding = IgmpBinding interface

datatype direction_t = INPUT | OUTPUT

datatype l3_proto_t = IPV4 | IPV6

datatype zone_t = INSIDE | OUTSIDE

datatype gbp_subnet_type_t = STITCHED_INTERNAL | STITCHED_EXTERNAL | TRANSPORT

datatype bond_member_mode_t = member_ACTIVE

datatype bond_member_rate_t = rate_SLOW

datatype bond_member = BondMember interface bond_member_mode_t bond_member_rate_t

text \<open>Everything the two managers hand to \<^verbatim>\<open>OM::write\<close>.\<close>

datatype vom_object =
    ObjInterface interface
  | ObjBridgeDomain bridge_domain
  | ObjRouteDomain route_domain
  | ObjL2Binding l2_binding
  | ObjBridgeDomainEntry bridge_domain l2_address_t interface
  | ObjGbpRouteDomain gbp_route_domain
  | ObjGbpBridgeDomain gbp_bridge_domain
  | ObjGbpVxlan "32 word" "gbp_bridge_domain + gbp_route_domain"
  | ObjGbpEndpointGroup gbp_endpoint_group
  | ObjIpMroute prefix_t "(path \<times> itf_flags_t) list"
  | ObjIgmpBinding igmp_binding
  | ObjIgmpListen igmp_binding address
  | ObjNatBinding interface direction_t l3_proto_t zone_t
  | ObjL3Binding interface prefix_t
  | ObjBridgeDomainArpEntry bridge_domain address l2_address_t
  | ObjGbpSubnet route_domain prefix_t gbp_subnet_type_t
  | ObjIpUnnumbered interface interface
  | ObjArpProxyConfig address address
  | ObjArpProxyBinding interface
  | ObjBondGroupBinding interface "bond_member list"
  | ObjLldpGlobal string nat nat
  | ObjLldpBinding interface string
  | ObjDhcpClient interface string l2_address_t bool

subsection \<open>The object model's client database\<close>

text \<open>
  Modelled from the spec: \<^verbatim>\<open>VOM::OM\<close> (\<^verbatim>\<open>mark_n_sweep\<close>, \<^verbatim>\<open>write\<close>, \<^verbatim>\<open>commit\<close>) is a
  library outside this repository. Following the spec's Reconciler (4.2): per owner
  key, the set of objects asserted under it; opening a scope marks them all stale,
  asserting an object keeps it and clears its mark, closing the scope deletes what is
  still stale. Reference counts across owner keys and the hardware queue are not
  modelled.
\<close>

record OM =
  objs :: "string \<Rightarrow> vom_object set"
  stale :: "string \<Rightarrow> vom_object set"

definition OM_mark :: "string \<Rightarrow> OM \<Rightarrow> OM" where
  "OM_mark key om = om\<lparr>stale := (stale om)(key := objs om key)\<rparr>"

definition OM_write :: "string \<Rightarrow> vom_object \<Rightarrow> OM \<Rightarrow> OM" where
  "OM_write key obj om =
     om\<lparr>objs := (objs om)(key := insert obj (objs om key)),
        stale := (stale om)(key := stale om key - {obj})\<rparr>"

text \<open>\<^verbatim>\<open>OM::commit\<close> differs from \<^verbatim>\<open>OM::write\<close> only in not flushing the hardware queue.\<close>

definition OM_commit :: "string \<Rightarrow> vom_object \<Rightarrow> OM \<Rightarrow> OM" where
  "OM_commit key obj om = OM_write key obj om"

definition OM_sweep :: "string \<Rightarrow> OM \<Rightarrow> OM" where
  "OM_sweep key om =
     om\<lparr>objs := (objs om)(key := objs om key - stale om key),
        stale := (stale om)(key := {})\<rparr>"

subsection \<open>The id generator\<close>

datatype class_id_t = RoutingDomain_CLASS_ID | BridgeDomain_CLASS_ID

text \<open>
  Modelled from the spec: the id generator is the agent's, outside this repository.
  Following the spec's ID Allocator (4.1): the first call for a (class, URI) pair
  allocates the next unused id of that class's namespace, later calls return the
  same id.
\<close>

record IdGen =
  ids :: "class_id_t \<times> URI \<Rightarrow> 32 word option"
  last_id :: "class_id_t \<Rightarrow> 32 word"

definition id_gen_get :: "IdGen \<Rightarrow> class_id_t \<Rightarrow> URI \<Rightarrow> 32 word \<times> IdGen" where
  "id_gen_get g cid uri =
     (case ids g (cid, uri) of
        Some i \<Rightarrow> (i, g)
      | None \<Rightarrow>
          (let i = last_id g cid + 1
           in (i, g\<lparr>ids := (ids g)((cid, uri) \<mapsto> i), last_id := (last_id g)(cid := i)\<rparr>)))"

subsection \<open>The policy model, as the renderer reads it\<close>

datatype modb_RoutingDomain = RoutingDomain (rd_getURI: URI)

datatype modb_BridgeDomain = BridgeDomain (bd_getURI: URI)

record Subnet =
  getAddress :: "string option"
  getPrefixLen :: "8 word option"
  getVirtualRouterIp :: "string option"

text \<open>
  The policy manager is the agent's; the renderer only queries it. Each query is a
  field: the answer the policy manager gives during the pass.
\<close>

record PolicyManager =
  groupExists :: "URI \<Rightarrow> bool"
  getVnidForGroup :: "URI \<Rightarrow> 32 word option"
  getRDForGroup :: "URI \<Rightarrow> modb_RoutingDomain option"
  getBDForGroup :: "URI \<Rightarrow> modb_BridgeDomain option"
  getBDVnidForGroup :: "URI \<Rightarrow> 32 word option"
  getRDVnidForGroup :: "URI \<Rightarrow> 32 word option"
  getBDMulticastIPForGroup :: "URI \<Rightarrow> string option"
  getSubnetsForGroup :: "URI \<Rightarrow> Subnet list"
  getRouterIpForSubnet :: "Subnet \<Rightarrow> address option"

subsection \<open>Faults, exceptions, tasks\<close>

datatype fault = NullDereference

datatype exn = NoFowardInfoException

datatype dhcp_state_t = DISCOVER | REQUEST | BOUND

record lease_t =
  lease_state :: dhcp_state_t
  host_prefix :: prefix_t

text \<open>
  Modelled from the spec: the task queue is the agent's. Following the spec (5): tasks
  are queued as discrete tasks and drained strictly in submission order. A task is the
  bound call it will make; \<open>HandleDhcpEventI\<close> is
  \<^verbatim>\<open>bind(&Uplink::handle_dhcp_event_i, this, lease)\<close>.
\<close>

datatype task = HandleDhcpEventI "lease_t option"

type_synonym TaskQueue = "(string \<times> task) list"

definition dispatch :: "string \<Rightarrow> task \<Rightarrow> TaskQueue \<Rightarrow> TaskQueue" where
  "dispatch name t q = q @ [(name, t)]"

subsection \<open>The uplink\<close>

datatype uplink_type_t = VXLAN | VLAN

text \<open>
  Modelled from the spec: \<^verbatim>\<open>SpineProxy\<close> (VppSpineProxy.hpp) is not under src. The
  spec's transport mode "builds overlay tunnel(s)": each of \<^verbatim>\<open>mk_v4\<close>, \<^verbatim>\<open>mk_v6\<close>,
  \<^verbatim>\<open>mk_mac\<close> asserts its tunnel under the key and returns it.
\<close>

record SpineProxy =
  proxy_v4 :: interface
  proxy_v6 :: interface
  proxy_mac :: interface

definition mk_v4 :: "SpineProxy \<Rightarrow> string \<Rightarrow> OM \<Rightarrow> interface \<times> OM" where
  "mk_v4 sp key om = (proxy_v4 sp, OM_write key (ObjInterface (proxy_v4 sp)) om)"

definition mk_v6 :: "SpineProxy \<Rightarrow> string \<Rightarrow> OM \<Rightarrow> interface \<times> OM" where
  "mk_v6 sp key om = (proxy_v6 sp, OM_write key (ObjInterface (proxy_v6 sp)) om)"

definition mk_mac :: "SpineProxy \<Rightarrow> string \<Rightarrow> OM \<Rightarrow> interface \<times> OM" where
  "mk_mac sp key om = (proxy_mac sp, OM_write key (ObjInterface (proxy_mac sp)) om)"

text \<open>
  The members of \<^verbatim>\<open>Uplink\<close> that its source uses, then three that the endpoint-group
  manager calls and whose bodies are not under src (\<^verbatim>\<open>spine_proxy\<close>,
  \<^verbatim>\<open>local_address\<close>, \<^verbatim>\<open>local_interface\<close>): these are fields holding what the call
  returns. \<open>slave_ifaces\<close> lists the set of slave names in iteration order.
\<close>

record Uplink =
  m_type :: uplink_type_t
  m_vxlan_src :: address
  m_vxlan_dst :: address
  m_iface :: string
  m_vlan :: "16 word"
  m_uplink :: "interface option"
  slave_ifaces :: "string list"
  spine_proxy :: "32 word \<Rightarrow> SpineProxy option"
  local_address :: address
  local_interface :: "interface option"

definition UPLINK_KEY :: string where
  "UPLINK_KEY = ''__uplink__''"

text \<open>
  \<^verbatim>\<open>Uplink::mk_interface\<close>. The VLAN case dereferences \<^verbatim>\<open>m_uplink\<close>. The enumeration
  has the two values that \<^verbatim>\<open>set\<close> assigns, so the empty pointer returned after the
  switch is never reached.
\<close>

definition mk_interface ::
  "Uplink \<Rightarrow> string \<Rightarrow> 32 word \<Rightarrow> OM \<Rightarrow> fault + (interface \<times> OM)" where
  "mk_interface up uuid vnid om =
     (case m_type up of
        VXLAN \<Rightarrow>
          (let vt = VxlanTunnel (m_vxlan_src up) (m_vxlan_dst up) vnid None mode_STANDARD
           in Inr (vt, OM_write uuid (ObjInterface vt) om))
      | VLAN \<Rightarrow>
          (case m_uplink up of
             None \<Rightarrow> Inl NullDereference
           | Some u \<Rightarrow>
               (let sb = SubInterface u UP vnid
                in Inr (sb, OM_write uuid (ObjInterface sb) om))))"

definition configure_tap :: "Uplink \<Rightarrow> prefix_t \<Rightarrow> OM \<Rightarrow> fault + OM" where
  "configure_tap up pfx om =
     (let itf = TapInterface ''tuntap-0'' type_TAP UP pfx;
          om1 = OM_write UPLINK_KEY (ObjInterface itf) om
      in case m_uplink up of
           None \<Rightarrow> Inl NullDereference
         | Some u \<Rightarrow>
             (let subitf = SubInterface u UP (ucast (m_vlan up));
                  om2 = OM_commit UPLINK_KEY (ObjL3Binding subitf pfx) om1;
                  om3 = OM_write UPLINK_KEY (ObjIpUnnumbered itf subitf) om2;
                  om4 = OM_write UPLINK_KEY
                          (ObjArpProxyConfig (pfx_address (Low pfx)) (pfx_address (High pfx))) om3;
                  om5 = OM_write UPLINK_KEY (ObjArpProxyBinding itf) om4
              in Inr om5))"

text \<open>
  \<^verbatim>\<open>Uplink::handle_dhcp_event\<close> and \<^verbatim>\<open>handle_dhcp_event_i\<close>. The state they can touch
  is the uplink, the object model and the task queue that \<^verbatim>\<open>m_taskQueue\<close> refers to.
\<close>

definition handle_dhcp_event ::
  "lease_t option \<Rightarrow> Uplink \<times> OM \<times> TaskQueue \<Rightarrow> Uplink \<times> OM \<times> TaskQueue" where
  "handle_dhcp_event lease s =
     (case s of (up, om, m_taskQueue) \<Rightarrow>
        (up, om, dispatch ''dhcp-config-event'' (HandleDhcpEventI lease) m_taskQueue))"

definition handle_dhcp_event_i ::
  "lease_t option \<Rightarrow> Uplink \<times> OM \<Rightarrow> fault + (Uplink \<times> OM)" where
  "handle_dhcp_event_i lease s =
     (case s of (up, om) \<Rightarrow>
        (case lease of
           None \<Rightarrow> Inl NullDereference
         | Some l \<Rightarrow>
             (case configure_tap up (host_prefix l) om of
                Inl f \<Rightarrow> Inl f
              | Inr om1 \<Rightarrow> Inr (up\<lparr>m_vxlan_src := pfx_address (host_prefix l)\<rparr>, om1))))"

text \<open>Running a queued task makes the call it was bound to.\<close>

fun run_task :: "task \<Rightarrow> Uplink \<times> OM \<Rightarrow> fault + (Uplink \<times> OM)" where
  "run_task (HandleDhcpEventI lease) s = handle_dhcp_event_i lease s"

text \<open>\<^verbatim>\<open>name.find(s) != std::string::npos\<close>: \<open>s\<close> occurs in \<open>name\<close>.\<close>

fun str_contains :: "string \<Rightarrow> string \<Rightarrow> bool" where
  "str_contains [] s = (s = [])"
| "str_contains (c # cs) s = (take (length s) (c # cs) = s \<or> str_contains cs s)"

definition getIntfTypeFromName :: "string \<Rightarrow> itf_type_t" where
  "getIntfTypeFromName name =
     (if str_contains name ''Bond'' then type_BOND
      else if str_contains name ''Ethernet'' then type_ETHERNET
      else if str_contains name ''tap'' then type_TAP
      else type_AFPACKET)"

text \<open>The loop of \<^verbatim>\<open>configure\<close> over the slave interfaces of a bond.\<close>

fun configure_slaves ::
  "string list \<Rightarrow> bond_member list \<times> OM \<Rightarrow> bond_member list \<times> OM" where
  "configure_slaves [] s = s"
| "configure_slaves (sif # sifs) (slave_itfs, om) =
     (let sitf = Interface sif (getIntfTypeFromName sif) UP None None;
          om1 = OM_write UPLINK_KEY (ObjInterface sitf) om;
          bm = BondMember sitf member_ACTIVE rate_SLOW
      in configure_slaves sifs (slave_itfs @ [bm], om1))"

text \<open>
  \<^verbatim>\<open>Uplink::configure\<close>. \<open>lease\<close> is what \<^verbatim>\<open>dc.singular()->lease()\<close> returns: the lease
  the dataplane's DHCP client holds at that moment, if any.
\<close>

definition configure ::
  "string \<Rightarrow> lease_t option \<Rightarrow> Uplink \<times> OM \<Rightarrow> fault + (Uplink \<times> OM)" where
  "configure fqdn lease s =
     (case s of (up0, om0) \<Rightarrow>
       (let type = getIntfTypeFromName (m_iface up0);
            (up1, om1) =
              (if type_BOND = type then
                 (let bitf = BondInterface (m_iface up0) UP mode_LACP lb_L2;
                      oma = OM_write UPLINK_KEY (ObjInterface bitf) om0;
                      (slave_itfs, omb) = configure_slaves (slave_ifaces up0) ([], oma);
                      omc = (if slave_itfs \<noteq> []
                             then OM_write UPLINK_KEY (ObjBondGroupBinding bitf slave_itfs) omb
                             else omb)
                  in (up0\<lparr>m_uplink := Some bitf\<rparr>, omc))
               else
                 (let itf = Interface (m_iface up0) type UP None None;
                      oma = OM_write UPLINK_KEY (ObjInterface itf) om0
                  in (up0\<lparr>m_uplink := Some itf\<rparr>, oma)));
            om2 = OM_write UPLINK_KEY (ObjRouteDomain (VomRouteDomain 0)) om1;
            om3 = OM_write UPLINK_KEY (ObjRouteDomain (VomRouteDomain 0)) om2;
            om4 = OM_write UPLINK_KEY (ObjLldpGlobal fqdn 5 2) om3
        in case m_uplink up1 of
             None \<Rightarrow> Inl NullDereference
           | Some u \<Rightarrow>
               (let om5 = OM_write UPLINK_KEY (ObjLldpBinding u ''uplink-interface'') om4;
                    subitf = SubInterface u UP (ucast (m_vlan up1));
                    om6 = OM_write UPLINK_KEY (ObjInterface subitf) om5;
                    hostname = takeWhile (\<lambda>c. c \<noteq> CHR ''.'') fqdn;
                    om7 = OM_write UPLINK_KEY
                            (ObjDhcpClient subitf hostname (L2AddressOf u) True) om6
                in case lease of
                     None \<Rightarrow> Inr (up1, om7)
                   | Some l \<Rightarrow>
                       if lease_state l \<noteq> DISCOVER then
                         (case configure_tap up1 (host_prefix l) om7 of
                            Inl f \<Rightarrow> Inl f
                          | Inr om8 \<Rightarrow>
                              Inr (up1\<lparr>m_vxlan_src := pfx_address (host_prefix l)\<rparr>, om8))
                       else Inr (up1, om7))))"

text \<open>The two overloads of \<^verbatim>\<open>Uplink::set\<close>.\<close>

definition set_vxlan :: "string \<Rightarrow> 16 word \<Rightarrow> string \<Rightarrow> address \<Rightarrow> 16 word \<Rightarrow> Uplink \<Rightarrow> Uplink" where
  "set_vxlan uplink uplink_vlan encap_name remote_ip port up =
     up\<lparr>m_type := VXLAN, m_vxlan_dst := remote_ip, m_iface := uplink, m_vlan := uplink_vlan\<rparr>"

definition set_vlan :: "string \<Rightarrow> 16 word \<Rightarrow> string \<Rightarrow> Uplink \<Rightarrow> Uplink" where
  "set_vlan uplink uplink_vlan encap_name up =
     up\<lparr>m_type := VLAN, m_iface := uplink, m_vlan := uplink_vlan\<rparr>"

subsection \<open>The endpoint-group manager\<close>

record VirtualRouter =
  mac :: mac_address_t

record Runtime =
  policy_manager :: PolicyManager
  id_gen :: IdGen
  uplink :: Uplink
  vr :: "VirtualRouter option"

record ForwardInfo =
  vnid :: "32 word"
  rdURI :: "URI option"
  rdId :: "32 word"
  bdURI :: "URI option"
  bdId :: "32 word"

text \<open>
  \<^verbatim>\<open>EndPointGroupManager::get_fwd_info\<close>. The struct is declared in the manager's
  header, which is not under src: \<open>fwd_init\<close> is the default-constructed
  \<^verbatim>\<open>ForwardInfo\<close> the function starts from. The id generator inside the runtime is
  the only state the function changes.
\<close>

definition get_fwd_info ::
  "ForwardInfo \<Rightarrow> Runtime \<Rightarrow> URI \<Rightarrow> exn + (ForwardInfo \<times> Runtime)" where
  "get_fwd_info fwd_init runtime uri =
     (let polMgr = policy_manager runtime;
          epgVnid = getVnidForGroup polMgr uri
      in case epgVnid of
           None \<Rightarrow> Inl NoFowardInfoException
         | Some v \<Rightarrow>
             (let fwd1 = fwd_init\<lparr>vnid := v\<rparr>;
                  epgRd = getRDForGroup polMgr uri;
                  epgBd = getBDForGroup polMgr uri
              in case epgBd of
                   None \<Rightarrow> Inl NoFowardInfoException
                 | Some b \<Rightarrow>
                     (let (fwd2, rt2) =
                            (case epgRd of
                               None \<Rightarrow> (fwd1, runtime)
                             | Some r \<Rightarrow>
                                 (let (i, g) = id_gen_get (id_gen runtime)
                                                 RoutingDomain_CLASS_ID (rd_getURI r)
                                  in (fwd1\<lparr>rdURI := Some (rd_getURI r), rdId := i\<rparr>,
                                      runtime\<lparr>id_gen := g\<rparr>)));
                          (j, g2) = id_gen_get (id_gen rt2) BridgeDomain_CLASS_ID (bd_getURI b)
                      in Inr (fwd2\<lparr>bdURI := Some (bd_getURI b), bdId := j\<rparr>,
                              rt2\<lparr>id_gen := g2\<rparr>))))"

text \<open>\<^verbatim>\<open>EndPointGroupManager::mk_mcast_tunnel\<close>; it dereferences the uplink's local interface.\<close>

definition mk_mcast_tunnel ::
  "Runtime \<Rightarrow> string \<Rightarrow> 32 word \<Rightarrow> string \<Rightarrow> OM \<Rightarrow> fault + (interface \<times> OM)" where
  "mk_mcast_tunnel r key vni maddr om =
     (case local_interface (uplink r) of
        None \<Rightarrow> Inl NullDereference
      | Some li \<Rightarrow>
          (let dst = Address maddr;
               vt = VxlanTunnel (local_address (uplink r)) dst vni (Some li) mode_GBP;
               om1 = OM_write key (ObjInterface vt) om;
               om2 = OM_write key
                       (ObjIpMroute (Prefix dst 32)
                          [(PathVia li nh_IPV4, flags_ACCEPT),
                           (PathSpecial special_LOCAL, flags_FORWARD)]) om1;
               igmp_b = IgmpBinding li;
               om3 = OM_write key (ObjIgmpBinding igmp_b) om2;
               om4 = OM_write key (ObjIgmpListen igmp_b dst) om3
           in Inr (vt, om4)))"

text \<open>\<^verbatim>\<open>EndPointGroupManager::mk_bvi\<close>.\<close>

definition mk_bvi ::
  "Runtime \<Rightarrow> string \<Rightarrow> bridge_domain \<Rightarrow> route_domain \<Rightarrow> mac_address_t option \<Rightarrow> OM
     \<Rightarrow> interface \<times> OM" where
  "mk_bvi r key bd rd mac_opt om =
     (let bvi0 = Interface (''bvi-'' @ to_string (unat (bd_id bd))) type_BVI UP (Some rd) None;
          bvi = (case mac_opt of
                   Some m \<Rightarrow> set_l2_address bvi0 m
                 | None \<Rightarrow>
                     (case vr r of
                        Some v \<Rightarrow> set_l2_address bvi0 (mac v)
                      | None \<Rightarrow> bvi0));
          om1 = OM_write key (ObjInterface bvi) om;
          om2 = OM_write key (ObjL2Binding (L2Binding bvi bd None)) om1;
          om3 = OM_write key (ObjBridgeDomainEntry bd (L2AddressOf bvi) bvi) om2
      in (bvi, om3))"

text \<open>
  The transport branch of \<^verbatim>\<open>mk_group\<close>, up to the value of \<^verbatim>\<open>gepg\<close> it leaves:
  the group object is built only when both the bridge domain's vnid and its multicast
  address are known.
\<close>

definition mk_group_transport ::
  "Runtime \<Rightarrow> string \<Rightarrow> URI \<Rightarrow> ForwardInfo \<Rightarrow> bridge_domain \<Rightarrow> route_domain \<Rightarrow> interface
     \<Rightarrow> SpineProxy \<Rightarrow> OM \<Rightarrow> fault + (gbp_endpoint_group option \<times> OM)" where
  "mk_group_transport runtime key uri fwd bd rd bvi sp om =
     (let (v4, om1) = mk_v4 sp key om;
          (v6, om2) = mk_v6 sp key om1;
          grd = GbpRouteDomain rd (Some v4) (Some v6);
          om3 = OM_write key (ObjGbpRouteDomain grd) om2;
          bd_vnid = getBDVnidForGroup (policy_manager runtime) uri;
          rd_vnid = getRDVnidForGroup (policy_manager runtime) uri;
          bd_mcast = getBDMulticastIPForGroup (policy_manager runtime) uri;
          r1 = (case (bd_vnid, bd_mcast) of
                  (Some bv, Some bm) \<Rightarrow>
                    (case mk_mcast_tunnel runtime key bv bm om3 of
                       Inl f \<Rightarrow> Inl f
                     | Inr (vt_mc, om4) \<Rightarrow>
                         (let om5 = OM_write key (ObjL2Binding (L2Binding vt_mc bd None)) om4;
                              (pm, om6) = mk_mac sp key om5;
                              gbd = GbpBridgeDomain bd bvi (Some pm) (Some vt_mc);
                              om7 = OM_write key (ObjGbpBridgeDomain gbd) om6;
                              om8 = OM_write key (ObjGbpVxlan bv (Inl gbd)) om7
                          in Inr (Some (GbpEndpointGroup (vnid fwd) None grd gbd), om8)))
                | _ \<Rightarrow> Inr (None, om3))
      in case r1 of
           Inl f \<Rightarrow> Inl f
         | Inr (gepg, om9) \<Rightarrow>
             (case rd_vnid of
                Some rv \<Rightarrow> Inr (gepg, OM_write key (ObjGbpVxlan rv (Inr grd)) om9)
              | None \<Rightarrow> Inr (gepg, om9)))"

text \<open>The stitched branch of \<^verbatim>\<open>mk_group\<close>.\<close>

definition mk_group_stitched ::
  "Runtime \<Rightarrow> string \<Rightarrow> ForwardInfo \<Rightarrow> bridge_domain \<Rightarrow> route_domain \<Rightarrow> interface \<Rightarrow> OM
     \<Rightarrow> fault + (gbp_endpoint_group option \<times> OM)" where
  "mk_group_stitched runtime key fwd bd rd bvi om =
     (case mk_interface (uplink runtime) key (vnid fwd) om of
        Inl f \<Rightarrow> Inl f
      | Inr (encap_link, om1) \<Rightarrow>
          (let l2_upl = L2Binding encap_link bd
                          (if type_VXLAN \<noteq> itf_type encap_link
                           then Some (L2_VTR_POP_1, vnid fwd) else None);
               om2 = OM_write key (ObjL2Binding l2_upl) om1;
               gbd = GbpBridgeDomain bd bvi None None;
               om3 = OM_write key (ObjGbpBridgeDomain gbd) om2;
               grd = GbpRouteDomain rd None None;
               om4 = OM_write key (ObjGbpRouteDomain grd) om3
           in Inr (Some (GbpEndpointGroup (vnid fwd) (Some encap_link) grd gbd), om4)))"

text \<open>
  \<^verbatim>\<open>EndPointGroupManager::mk_group\<close>. The exception of \<^verbatim>\<open>get_fwd_info\<close> is caught and
  the empty \<^verbatim>\<open>gepg\<close> returned. After either branch the function writes \<^verbatim>\<open>*gepg\<close>,
  whatever the branch left in \<^verbatim>\<open>gepg\<close>.
\<close>

definition mk_group ::
  "ForwardInfo \<Rightarrow> Runtime \<Rightarrow> string \<Rightarrow> URI \<Rightarrow> OM
     \<Rightarrow> fault + (gbp_endpoint_group option \<times> Runtime \<times> OM)" where
  "mk_group fwd_init runtime key uri om =
     (case get_fwd_info fwd_init runtime uri of
        Inl NoFowardInfoException \<Rightarrow> Inr (None, runtime, om)
      | Inr (fwd, rt1) \<Rightarrow>
          (let bd = VomBridgeDomain (bdId fwd) learning_OFF;
               om1 = OM_write key (ObjBridgeDomain bd) om;
               rd = VomRouteDomain (rdId fwd);
               om2 = OM_write key (ObjRouteDomain rd) om1;
               (bvi, om3) = mk_bvi rt1 key bd rd None om2;
               branch = (case spine_proxy (uplink rt1) (vnid fwd) of
                           Some sp \<Rightarrow> mk_group_transport rt1 key uri fwd bd rd bvi sp om3
                         | None \<Rightarrow> mk_group_stitched rt1 key fwd bd rd bvi om3)
           in case branch of
                Inl f \<Rightarrow> Inl f
              | Inr (None, om4) \<Rightarrow> Inl NullDereference
              | Inr (Some g, om4) \<Rightarrow>
                  Inr (Some g, rt1, OM_write key (ObjGbpEndpointGroup g) om4)))"

text \<open>The loop of \<^verbatim>\<open>handle_update\<close> over the group's subnets.\<close>

fun handle_update_subnets ::
  "PolicyManager \<Rightarrow> string \<Rightarrow> interface \<Rightarrow> bridge_domain \<Rightarrow> route_domain \<Rightarrow> Subnet list
     \<Rightarrow> OM \<Rightarrow> OM" where
  "handle_update_subnets pm epg_uuid bvi bd rd [] om = om"
| "handle_update_subnets pm epg_uuid bvi bd rd (sn # subnets) om =
     (let routerIp = getRouterIpForSubnet pm sn
      in case (getPrefixLen sn, getAddress sn) of
           (Some len, Some addr) \<Rightarrow>
             (let om1 = (case routerIp of
                           Some raddr \<Rightarrow>
                             OM_write epg_uuid
                               (ObjBridgeDomainArpEntry bd raddr (L2AddressOf bvi))
                               (OM_write epg_uuid (ObjL3Binding bvi (HostPrefix raddr)) om)
                         | None \<Rightarrow> om);
                  pfx = Prefix (Address addr) len;
                  om2 = OM_write epg_uuid (ObjGbpSubnet rd (Low pfx) STITCHED_INTERNAL) om1
              in handle_update_subnets pm epg_uuid bvi bd rd subnets om2)
         | _ \<Rightarrow> handle_update_subnets pm epg_uuid bvi bd rd subnets om)"

text \<open>
  \<^verbatim>\<open>EndPointGroupManager::handle_update\<close>. \<^verbatim>\<open>OM::mark_n_sweep ms(epg_uuid)\<close> marks on
  construction and sweeps on destruction, that is at every return of the function.
\<close>

definition handle_update ::
  "ForwardInfo \<Rightarrow> Runtime \<Rightarrow> URI \<Rightarrow> OM \<Rightarrow> fault + (Runtime \<times> OM)" where
  "handle_update fwd_init m_runtime epgURI om =
     (let epg_uuid = toString epgURI;
          ms = OM_mark epg_uuid om
      in if \<not> groupExists (policy_manager m_runtime) epgURI
         then Inr (m_runtime, OM_sweep epg_uuid ms)
         else
           (case mk_group fwd_init m_runtime epg_uuid epgURI ms of
              Inl f \<Rightarrow> Inl f
            | Inr (None, rt1, om1) \<Rightarrow> Inr (rt1, OM_sweep epg_uuid om1)
            | Inr (Some gepg, rt1, om1) \<Rightarrow>
                (let bvi = get_bvi (get_bridge_domain gepg);
                     bd = gbd_get_bridge_domain (get_bridge_domain gepg);
                     rd = grd_get_route_domain (get_route_domain gepg);
                     nb6 = ObjNatBinding bvi INPUT IPV6 INSIDE;
                     nb4 = ObjNatBinding bvi INPUT IPV4 INSIDE;
                     om2 = OM_write epg_uuid nb4 om1;
                     om3 = OM_write epg_uuid nb6 om2;
                     subnets = getSubnetsForGroup (policy_manager rt1) epgURI;
                     om4 = handle_update_subnets (policy_manager rt1) epg_uuid bvi bd rd
                             subnets om3
                 in Inr (rt1, OM_sweep epg_uuid om4))))"

subsection \<open>What a pass has asserted so far\<close>

text \<open>
  Inside a scope, the objects of a key that are no longer marked: those written since
  the scope was opened. They are what the sweep leaves.
\<close>

definition written :: "OM \<Rightarrow> string \<Rightarrow> vom_object set" where
  "written om key = objs om key - stale om key"

subsection \<open>Concrete policy states\<close>

text \<open>
  One endpoint group with its routing and bridge domain, vnid \<open>0xA0A\<close>, one subnet
  with a virtual-router address, on a VLAN uplink over \<open>opflex-itf\<close> with control VLAN
  4093: the setting of the repository's endpoint-group test. The variants below change
  one thing each.
\<close>

definition epg0 :: URI where "epg0 = URI ''epg0''"
definition rd0 :: URI where "rd0 = URI ''rd0''"
definition bd0 :: URI where "bd0 = URI ''bd0''"

definition sn0 :: Subnet where
  "sn0 = \<lparr>getAddress = Some ''10.20.44.0'', getPrefixLen = Some 24,
          getVirtualRouterIp = Some ''10.20.44.1''\<rparr>"

definition router_ip :: "Subnet \<Rightarrow> address option" where
  "router_ip sn = map_option Address (getVirtualRouterIp sn)"

definition pm0 :: PolicyManager where
  "pm0 = \<lparr>groupExists = (\<lambda>u. u = epg0),
          getVnidForGroup = (\<lambda>u. if u = epg0 then Some 0xA0A else None),
          getRDForGroup = (\<lambda>u. if u = epg0 then Some (RoutingDomain rd0) else None),
          getBDForGroup = (\<lambda>u. if u = epg0 then Some (BridgeDomain bd0) else None),
          getBDVnidForGroup = (\<lambda>u. None),
          getRDVnidForGroup = (\<lambda>u. None),
          getBDMulticastIPForGroup = (\<lambda>u. None),
          getSubnetsForGroup = (\<lambda>u. if u = epg0 then [sn0] else []),
          getRouterIpForSubnet = router_ip\<rparr>"

definition phy0 :: interface where
  "phy0 = Interface ''opflex-itf'' type_AFPACKET UP None None"

definition uplink0 :: Uplink where
  "uplink0 = \<lparr>m_type = VLAN, m_vxlan_src = Address ''0.0.0.0'', m_vxlan_dst = Address ''0.0.0.0'',
     m_iface = ''opflex-itf'', m_vlan = 4093, m_uplink = Some phy0, slave_ifaces = [],
     spine_proxy = (\<lambda>v. None), local_address = Address ''0.0.0.0'',
     local_interface = Some (SubInterface phy0 UP 4093)\<rparr>"

definition idgen0 :: IdGen where
  "idgen0 = \<lparr>ids = (\<lambda>k. None), last_id = (\<lambda>c. 99)\<rparr>"

definition rt0 :: Runtime where
  "rt0 = \<lparr>policy_manager = pm0, id_gen = idgen0, uplink = uplink0,
          vr = Some \<lparr>mac = MacAddress ''00:22:bd:f8:19:ff''\<rparr>\<rparr>"

definition fwd0 :: ForwardInfo where
  "fwd0 = \<lparr>vnid = 0, rdURI = None, rdId = 0, bdURI = None, bdId = 0\<rparr>"

definition om0 :: OM where
  "om0 = \<lparr>objs = (\<lambda>k. {}), stale = (\<lambda>k. {})\<rparr>"

definition rt_deleted :: Runtime where
  "rt_deleted = rt0\<lparr>policy_manager := pm0\<lparr>groupExists := (\<lambda>u. False)\<rparr>\<rparr>"

definition rt_no_bd :: Runtime where
  "rt_no_bd = rt0\<lparr>policy_manager := pm0\<lparr>getBDForGroup := (\<lambda>u. None)\<rparr>\<rparr>"

definition om_prev :: OM where
  "om_prev = \<lparr>objs = (\<lambda>k. if k = ''epg0'' then {ObjRouteDomain (VomRouteDomain 100),
                 ObjBridgeDomain (VomBridgeDomain 100 learning_OFF)} else {}),
              stale = (\<lambda>k. {})\<rparr>"

definition lease0 :: lease_t where
  "lease0 = \<lparr>lease_state = BOUND, host_prefix = Prefix (Address ''192.168.1.10'') 24\<rparr>"

definition uplink_vxlan :: Uplink where
  "uplink_vxlan = set_vxlan ''opflex-itf'' 4093 ''eth0'' (Address ''10.0.0.1'') 4789
                    (uplink0\<lparr>m_vxlan_src := Address ''192.168.1.10''\<rparr>)"

text \<open>A VXLAN uplink with a spine proxy, and a policy that gives the group no bridge-domain vnid.\<close>

definition sp0 :: SpineProxy where
  "sp0 = \<lparr>proxy_v4 = VxlanTunnel (Address ''192.168.1.10'') (Address ''10.0.0.32'') 0xA0A None mode_GBP,
          proxy_v6 = VxlanTunnel (Address ''192.168.1.10'') (Address ''10.0.0.33'') 0xA0A None mode_GBP,
          proxy_mac = VxlanTunnel (Address ''192.168.1.10'') (Address ''10.0.0.34'') 0xA0A None mode_GBP\<rparr>"

definition rt_transport :: Runtime where
  "rt_transport =
     rt0\<lparr>policy_manager := pm0\<lparr>getRDVnidForGroup := (\<lambda>u. Some 0xB0B),
                                  getBDMulticastIPForGroup := (\<lambda>u. Some ''224.1.1.1'')\<rparr>,
         uplink := uplink_vxlan\<lparr>spine_proxy := (\<lambda>v. Some sp0)\<rparr>\<rparr>"

text \<open>The stitched group on the VXLAN uplink.\<close>

definition rt_stitched_vxlan :: Runtime where
  "rt_stitched_vxlan = rt0\<lparr>uplink := uplink_vxlan\<rparr>"

text \<open>The group's only subnet has an address and a virtual-router address, but no prefix length.\<close>

definition sn_no_len :: Subnet where
  "sn_no_len = \<lparr>getAddress = Some ''10.20.44.0'', getPrefixLen = None,
                getVirtualRouterIp = Some ''10.20.44.1''\<rparr>"

definition rt_no_len :: Runtime where
  "rt_no_len = rt0\<lparr>policy_manager := pm0\<lparr>getSubnetsForGroup := (\<lambda>u. [sn_no_len])\<rparr>\<rparr>"

definition bvi100 :: interface where
  "bvi100 = Interface ''bvi-100'' type_BVI UP (Some (VomRouteDomain 100))
              (Some (MacAddress ''00:22:bd:f8:19:ff''))"

text \<open>The objects that are routing entries of a subnet.\<close>

fun is_gbp_subnet :: "vom_object \<Rightarrow> bool" where
  "is_gbp_subnet (ObjGbpSubnet rd p t) = True"
| "is_gbp_subnet obj = False"

section \<open>Properties\<close>

subsection \<open>The client database\<close>

lemma written_mark: "written (OM_mark key om) key = {}"
  by (simp add: written_def OM_mark_def)

lemma written_write: "written (OM_write key obj om) key = insert obj (written om key)"
  by (auto simp: written_def OM_write_def)

lemma objs_sweep: "objs (OM_sweep key om) key = written om key"
  by (simp add: written_def OM_sweep_def)

lemma objs_sweep_other: "k \<noteq> key \<Longrightarrow> objs (OM_sweep key om) k = objs om k"
  by (simp add: OM_sweep_def)

lemma objs_mark: "objs (OM_mark key om) k = objs om k"
  by (simp add: OM_mark_def)

lemma objs_write_other: "k \<noteq> key \<Longrightarrow> objs (OM_write key obj om) k = objs om k"
  by (simp add: OM_write_def)

lemma objs_write_same: "obj \<in> objs (OM_write key obj om) key"
  by (auto simp: OM_write_def)

lemma objs_write_mono: "x \<in> objs om k \<Longrightarrow> x \<in> objs (OM_write key obj om) k"
  by (auto simp: OM_write_def)

subsection \<open>The uplink\<close>

lemma configure_tap_Some:
  "m_uplink up = Some u \<Longrightarrow>
     \<exists>om'. configure_tap up pfx om = Inr om' \<and>
       ObjInterface (TapInterface ''tuntap-0'' type_TAP UP pfx) \<in> objs om' UPLINK_KEY"
  by (simp add: configure_tap_def Let_def OM_commit_def objs_write_same objs_write_mono)

lemma configure_no_lease:
  "\<exists>up1 om7 u. configure fqdn None (up, om) = Inr (up1, om7) \<and> m_uplink up1 = Some u \<and>
     (\<forall>l. configure fqdn (Some l) (up, om) =
        (if lease_state l \<noteq> DISCOVER then
           (case configure_tap up1 (host_prefix l) om7 of
              Inl f \<Rightarrow> Inl f
            | Inr om8 \<Rightarrow> Inr (up1\<lparr>m_vxlan_src := pfx_address (host_prefix l)\<rparr>, om8))
         else Inr (up1, om7)))"
proof (cases "type_BOND = getIntfTypeFromName (m_iface up)")
  case True
  obtain sl omb where sl: "configure_slaves (slave_ifaces up)
      ([], OM_write UPLINK_KEY (ObjInterface (BondInterface (m_iface up) UP mode_LACP lb_L2)) om) = (sl, omb)"
    by (cases "configure_slaves (slave_ifaces up)
      ([], OM_write UPLINK_KEY (ObjInterface (BondInterface (m_iface up) UP mode_LACP lb_L2)) om)")
  from True sl show ?thesis
    by (simp add: configure_def Let_def)
next
  case False
  then show ?thesis
    by (simp add: configure_def Let_def)
qed

subsection \<open>Forwarding information\<close>

lemma get_fwd_info_Inl:
  "(get_fwd_info fwd_init rt uri = Inl e) =
     (getVnidForGroup (policy_manager rt) uri = None \<or> getBDForGroup (policy_manager rt) uri = None)"
  by (cases e) (auto simp: get_fwd_info_def Let_def split: option.splits prod.splits)

lemma mk_group_no_fwd:
  "get_fwd_info fwd_init rt uri = Inl e \<Longrightarrow> mk_group fwd_init rt key uri om = Inr (None, rt, om)"
  by (cases e) (simp add: mk_group_def)

lemma get_fwd_info_frame:
  "get_fwd_info fwd_init rt uri = Inr (fwd, rt1) \<Longrightarrow>
     policy_manager rt1 = policy_manager rt \<and> uplink rt1 = uplink rt \<and> vr rt1 = vr rt"
  by (auto simp: get_fwd_info_def Let_def split: option.splits prod.splits)

lemma mk_group_frame:
  "mk_group fwd_init rt key uri om = Inr (g, rt1, om1) \<Longrightarrow> policy_manager rt1 = policy_manager rt"
  by (auto simp: mk_group_def Let_def dest: get_fwd_info_frame split: sum.splits exn.splits option.splits prod.splits)

lemma written_subnets_mono:
  "x \<in> written om key \<Longrightarrow> x \<in> written (handle_update_subnets pm key bvi bd rd sns om) key"
  by (induction sns arbitrary: om) (auto simp: written_write Let_def split: option.splits)

lemma id_gen_get_ids:
  "id_gen_get g cid uri = (i, g') \<Longrightarrow> ids g' (cid, uri) = Some i"
  by (auto simp: id_gen_get_def Let_def split: option.splits)

lemma id_gen_get_other:
  "id_gen_get g cid uri = (i, g') \<Longrightarrow> k \<noteq> (cid, uri) \<Longrightarrow> ids g' k = ids g k"
  by (auto simp: id_gen_get_def Let_def split: option.splits)

lemmas ex_defs = rt0_def pm0_def fwd0_def idgen0_def uplink0_def epg0_def rd0_def bd0_def om0_def
  sn0_def router_ip_def phy0_def

lemmas run_defs = mk_group_def get_fwd_info_def id_gen_get_def
     mk_bvi_def mk_group_stitched_def mk_interface_def Let_def
     to_string.simps digit_char_def OM_mark_def OM_write_def OM_sweep_def

lemma mk0: "\<exists>g r. mk_group fwd0 rt0 (toString epg0) epg0 (OM_mark (toString epg0) om0) = Inr (Some g, r)"
  by (simp add: ex_defs run_defs)

lemmas run_defs2 = run_defs mk_group_transport_def mk_v4_def mk_v6_def mk_mac_def mk_mcast_tunnel_def

lemma mk_interface_any_om:
  "mk_interface up k v om = Inr (link, oml) \<Longrightarrow>
     mk_interface up k v om2 = Inr (link, OM_write k (ObjInterface link) om2)"
  by (auto simp: mk_interface_def Let_def split: uplink_type_t.splits option.splits)

lemma mk_interface_not_plain:
  "mk_interface up k v om = Inr (link, oml) \<Longrightarrow> link \<noteq> Interface n t a r m"
  by (auto simp: mk_interface_def Let_def split: uplink_type_t.splits option.splits)

lemma mk_bvi_plain:
  "mk_bvi r key bd rd None om = (bvi, om') \<Longrightarrow> \<exists>n t a d m. bvi = Interface n t a d m"
  by (auto simp: mk_bvi_def Let_def split: option.splits)

lemma mk_bvi_written:
  "mk_bvi r key bd rd mo om = (bvi, om') \<Longrightarrow>
     written om' key =
       insert (ObjBridgeDomainEntry bd (L2AddressOf bvi) bvi)
         (insert (ObjL2Binding (L2Binding bvi bd None))
            (insert (ObjInterface bvi) (written om key)))"
  by (auto simp: mk_bvi_def Let_def written_write)

lemma fwd_rt0:
  "\<exists>fwd rt1. get_fwd_info fwd0 rt0 epg0 = Inr (fwd, rt1) \<and> vnid fwd = 0xA0A \<and> bdId fwd = 100"
  by (simp add: ex_defs run_defs)

lemma fwd_rt_stitched_vxlan:
  "\<exists>fwd rt1. get_fwd_info fwd0 rt_stitched_vxlan epg0 = Inr (fwd, rt1) \<and> vnid fwd = 0xA0A \<and> bdId fwd = 100"
  by (simp add: rt_stitched_vxlan_def ex_defs run_defs)

lemma subnets_route:
  "sn \<in> set sns \<Longrightarrow> getAddress sn = Some a \<Longrightarrow> getPrefixLen sn = Some l \<Longrightarrow>
     ObjGbpSubnet rd (Low (Prefix (Address a) l)) STITCHED_INTERNAL
       \<in> written (handle_update_subnets pm key bvi bd rd sns om) key"
proof (induction sns arbitrary: om)
  case Nil
  then show ?case by simp
next
  case (Cons x xs)
  show ?case
  proof (cases "sn = x")
    case True
    with Cons.prems show ?thesis
      by (simp add: Let_def written_subnets_mono written_write)
  next
    case False
    with Cons.prems have "sn \<in> set xs" by simp
    with Cons.IH Cons.prems show ?thesis
      by (simp add: Let_def split: option.splits)
  qed
qed

lemma subnets_router:
  "sn \<in> set sns \<Longrightarrow> getAddress sn = Some a \<Longrightarrow> getPrefixLen sn = Some l \<Longrightarrow>
   getRouterIpForSubnet pm sn = Some raddr \<Longrightarrow>
     ObjL3Binding bvi (HostPrefix raddr) \<in> written (handle_update_subnets pm key bvi bd rd sns om) key \<and>
     ObjBridgeDomainArpEntry bd raddr (L2AddressOf bvi)
       \<in> written (handle_update_subnets pm key bvi bd rd sns om) key"
proof (induction sns arbitrary: om)
  case Nil
  then show ?case by simp
next
  case (Cons x xs)
  show ?case
  proof (cases "sn = x")
    case True
    with Cons.prems show ?thesis
      by (simp add: Let_def written_subnets_mono written_write)
  next
    case False
    with Cons.prems have "sn \<in> set xs" by simp
    with Cons.IH Cons.prems show ?thesis
      by (simp add: Let_def split: option.splits)
  qed
qed

lemma subnets_skip:
  "getAddress sn = None \<or> getPrefixLen sn = None \<Longrightarrow>
     handle_update_subnets pm key bvi bd rd (xs @ sn # ys) om =
     handle_update_subnets pm key bvi bd rd (xs @ ys) om"
  by (induction xs arbitrary: om) (auto simp: Let_def split: option.splits)

lemma no_len_run:
  "\<exists>rt' om'. handle_update fwd0 rt_no_len epg0 om0 = Inr (rt', om') \<and>
      ObjNatBinding bvi100 INPUT IPV4 INSIDE \<in> objs om' (toString epg0) \<and>
      ObjL3Binding bvi100 (HostPrefix (Address ''10.20.44.1'')) \<notin> objs om' (toString epg0) \<and>
      objs om' (toString epg0) \<inter> Collect is_gbp_subnet = {}"
  by (simp add: rt_no_len_def sn_no_len_def bvi100_def handle_update_def ex_defs run_defs)

lemma mk_group_transport_incomplete:
  assumes fwd: "get_fwd_info fwd_init rt uri = Inr (fwd, rt1)"
    and sp: "spine_proxy (uplink rt) (vnid fwd) = Some sp"
    and miss: "getBDVnidForGroup (policy_manager rt) uri = None \<or>
               getBDMulticastIPForGroup (policy_manager rt) uri = None"
  shows "mk_group fwd_init rt key uri om = Inl NullDereference"
proof -
  have fr: "policy_manager rt1 = policy_manager rt" "uplink rt1 = uplink rt"
    using fwd by (simp_all add: get_fwd_info_frame)
  let ?bd = "VomBridgeDomain (bdId fwd) learning_OFF"
  let ?rd = "VomRouteDomain (rdId fwd)"
  let ?om2 = "OM_write key (ObjRouteDomain ?rd) (OM_write key (ObjBridgeDomain ?bd) om)"
  obtain bvi om3 where bvi: "mk_bvi rt1 key ?bd ?rd None ?om2 = (bvi, om3)"
    by (cases "mk_bvi rt1 key ?bd ?rd None ?om2")
  have tr: "\<exists>om9. mk_group_transport rt1 key uri fwd ?bd ?rd bvi sp om3 = Inr (None, om9)"
    using miss
    by (auto simp: mk_group_transport_def mk_v4_def mk_v6_def Let_def fr split: option.splits)
  then obtain om9 where "mk_group_transport rt1 key uri fwd ?bd ?rd bvi sp om3 = Inr (None, om9)"
    by blast
  with fwd sp bvi show ?thesis
    by (simp add: mk_group_def Let_def fr)
qed

lemma fwd_rt_transport:
  "\<exists>fwd rt1. get_fwd_info fwd0 rt_transport epg0 = Inr (fwd, rt1) \<and> vnid fwd = 0xA0A"
  by (simp add: rt_transport_def ex_defs run_defs)

text \<open>
  C1. A render pass for a group whose forwarding information is unresolved (the group
  no longer exists, or the policy manager cannot give its vnid or its bridge domain)
  opens the scope for the group's key, writes nothing and closes the scope: the result
  is the sweep of the freshly marked database, which holds no object under that key
  and leaves every other key as it was.
\<close>

theorem handle_update_unresolved:
  assumes "\<not> groupExists (policy_manager rt) uri \<or>
           getVnidForGroup (policy_manager rt) uri = None \<or>
           getBDForGroup (policy_manager rt) uri = None"
  shows "handle_update fwd_init rt uri om =
           Inr (rt, OM_sweep (toString uri) (OM_mark (toString uri) om)) \<and>
         objs (OM_sweep (toString uri) (OM_mark (toString uri) om)) (toString uri) = {} \<and>
         (\<forall>k. k \<noteq> toString uri \<longrightarrow>
            objs (OM_sweep (toString uri) (OM_mark (toString uri) om)) k = objs om k)"
proof (cases "groupExists (policy_manager rt) uri")
  case False
  then show ?thesis
    by (simp add: handle_update_def Let_def objs_sweep written_mark objs_sweep_other objs_mark)
next
  case True
  with assms have "get_fwd_info fwd_init rt uri = Inl NoFowardInfoException"
    by (simp add: get_fwd_info_Inl)
  then have "mk_group fwd_init rt (toString uri) uri (OM_mark (toString uri) om) =
               Inr (None, rt, OM_mark (toString uri) om)"
    by (rule mk_group_no_fwd)
  with True show ?thesis
    by (simp add: handle_update_def Let_def objs_sweep written_mark objs_sweep_other objs_mark)
qed

theorem handle_update_unresolved_witness:
  "\<not> groupExists (policy_manager rt_deleted) epg0 \<and>
   objs om_prev (toString epg0) \<noteq> {} \<and>
   (\<exists>om'. handle_update fwd0 rt_deleted epg0 om_prev = Inr (rt_deleted, om') \<and>
      objs om' (toString epg0) = {})"
proof -
  have h: "\<not> groupExists (policy_manager rt_deleted) epg0 \<or>
           getVnidForGroup (policy_manager rt_deleted) epg0 = None \<or>
           getBDForGroup (policy_manager rt_deleted) epg0 = None"
    by (simp add: rt_deleted_def rt0_def)
  have p: "objs om_prev (toString epg0) \<noteq> {}"
    by (simp add: om_prev_def epg0_def)
  have d: "\<not> groupExists (policy_manager rt_deleted) epg0"
    by (simp add: rt_deleted_def rt0_def)
  from handle_update_unresolved [OF h, of fwd0 om_prev] p d show ?thesis
    by blast
qed

text \<open>
  C2. When \<open>get_fwd_info\<close> raises, \<open>mk_group\<close> catches the exception and returns the
  empty group pointer, having written nothing and changed nothing; \<open>handle_update\<close>
  then returns normally, and after its sweep no object is left under the group's key.
\<close>

theorem no_fwd_info_swallowed:
  assumes "get_fwd_info fwd_init rt uri = Inl e"
  shows "mk_group fwd_init rt key uri om = Inr (None, rt, om) \<and>
         (\<exists>rt' om'. handle_update fwd_init rt uri om = Inr (rt', om') \<and>
            objs om' (toString uri) = {})"
proof
  show "mk_group fwd_init rt key uri om = Inr (None, rt, om)"
    using assms by (rule mk_group_no_fwd)
next
  have "mk_group fwd_init rt (toString uri) uri (OM_mark (toString uri) om) =
          Inr (None, rt, OM_mark (toString uri) om)"
    using assms by (rule mk_group_no_fwd)
  then show "\<exists>rt' om'. handle_update fwd_init rt uri om = Inr (rt', om') \<and>
            objs om' (toString uri) = {}"
    by (simp add: handle_update_def Let_def objs_sweep written_mark)
qed

theorem no_fwd_info_swallowed_witness:
  "groupExists (policy_manager rt_no_bd) epg0 \<and>
   get_fwd_info fwd0 rt_no_bd epg0 = Inl NoFowardInfoException \<and>
   objs om_prev (toString epg0) \<noteq> {} \<and>
   mk_group fwd0 rt_no_bd (toString epg0) epg0 om_prev = Inr (None, rt_no_bd, om_prev) \<and>
   (\<exists>rt' om'. handle_update fwd0 rt_no_bd epg0 om_prev = Inr (rt', om') \<and>
      objs om' (toString epg0) = {})"
proof -
  have h: "get_fwd_info fwd0 rt_no_bd epg0 = Inl NoFowardInfoException"
    by (simp add: get_fwd_info_def rt_no_bd_def rt0_def pm0_def)
  have g: "groupExists (policy_manager rt_no_bd) epg0"
    by (simp add: rt_no_bd_def rt0_def pm0_def)
  have p: "objs om_prev (toString epg0) \<noteq> {}"
    by (simp add: om_prev_def epg0_def)
  from no_fwd_info_swallowed [OF h, of "toString epg0" om_prev] h g p show ?thesis
    by simp
qed

text \<open>
  C3. \<open>get_fwd_info\<close> raises \<open>NoFowardInfoException\<close> exactly when the policy manager
  has no vnid or no bridge domain for the group; a missing routing domain alone does
  not make it raise. When it returns, the result carries the vnid, the bridge domain's
  URI and the id the generator holds for that URI, and, when the group has a routing
  domain, that domain's URI and id as well.
\<close>

theorem get_fwd_info_result:
  "(get_fwd_info fwd_init rt uri = Inl NoFowardInfoException) =
     (getVnidForGroup (policy_manager rt) uri = None \<or> getBDForGroup (policy_manager rt) uri = None) \<and>
   (\<forall>v b. getVnidForGroup (policy_manager rt) uri = Some v \<and>
          getBDForGroup (policy_manager rt) uri = Some b \<longrightarrow>
      (\<exists>fwd rt'. get_fwd_info fwd_init rt uri = Inr (fwd, rt') \<and>
         vnid fwd = v \<and>
         bdURI fwd = Some (bd_getURI b) \<and>
         ids (id_gen rt') (BridgeDomain_CLASS_ID, bd_getURI b) = Some (bdId fwd) \<and>
         (\<forall>r. getRDForGroup (policy_manager rt) uri = Some r \<longrightarrow>
            rdURI fwd = Some (rd_getURI r) \<and>
            ids (id_gen rt') (RoutingDomain_CLASS_ID, rd_getURI r) = Some (rdId fwd))))"
proof (intro conjI allI impI)
  show "(get_fwd_info fwd_init rt uri = Inl NoFowardInfoException) =
     (getVnidForGroup (policy_manager rt) uri = None \<or> getBDForGroup (policy_manager rt) uri = None)"
    by (rule get_fwd_info_Inl)
next
  fix v b
  assume vb: "getVnidForGroup (policy_manager rt) uri = Some v \<and>
          getBDForGroup (policy_manager rt) uri = Some b"
  show "\<exists>fwd rt'. get_fwd_info fwd_init rt uri = Inr (fwd, rt') \<and>
         vnid fwd = v \<and>
         bdURI fwd = Some (bd_getURI b) \<and>
         ids (id_gen rt') (BridgeDomain_CLASS_ID, bd_getURI b) = Some (bdId fwd) \<and>
         (\<forall>r. getRDForGroup (policy_manager rt) uri = Some r \<longrightarrow>
            rdURI fwd = Some (rd_getURI r) \<and>
            ids (id_gen rt') (RoutingDomain_CLASS_ID, rd_getURI r) = Some (rdId fwd))"
  proof (cases "getRDForGroup (policy_manager rt) uri")
    case None
    obtain j g2 where bd: "id_gen_get (id_gen rt) BridgeDomain_CLASS_ID (bd_getURI b) = (j, g2)"
      by (cases "id_gen_get (id_gen rt) BridgeDomain_CLASS_ID (bd_getURI b)")
    from vb None bd show ?thesis
      by (simp add: get_fwd_info_def Let_def id_gen_get_ids)
  next
    case (Some r)
    obtain i g where rd: "id_gen_get (id_gen rt) RoutingDomain_CLASS_ID (rd_getURI r) = (i, g)"
      by (cases "id_gen_get (id_gen rt) RoutingDomain_CLASS_ID (rd_getURI r)")
    obtain j g2 where bd: "id_gen_get g BridgeDomain_CLASS_ID (bd_getURI b) = (j, g2)"
      by (cases "id_gen_get g BridgeDomain_CLASS_ID (bd_getURI b)")
    have "ids g2 (RoutingDomain_CLASS_ID, rd_getURI r) = ids g (RoutingDomain_CLASS_ID, rd_getURI r)"
      using bd by (rule id_gen_get_other) simp
    with rd have "ids g2 (RoutingDomain_CLASS_ID, rd_getURI r) = Some i"
      by (simp add: id_gen_get_ids)
    with vb Some rd bd show ?thesis
      by (simp add: get_fwd_info_def Let_def id_gen_get_ids)
  qed
qed

theorem get_fwd_info_result_witness:
  "getVnidForGroup (policy_manager rt0) epg0 = Some 0xA0A \<and>
   getBDForGroup (policy_manager rt0) epg0 = Some (BridgeDomain bd0) \<and>
   getRDForGroup (policy_manager rt0) epg0 = Some (RoutingDomain rd0) \<and>
   (\<exists>fwd rt'. get_fwd_info fwd0 rt0 epg0 = Inr (fwd, rt') \<and>
      vnid fwd = 0xA0A \<and> bdURI fwd = Some bd0 \<and> rdURI fwd = Some rd0 \<and>
      ids (id_gen rt') (BridgeDomain_CLASS_ID, bd0) = Some (bdId fwd) \<and>
      ids (id_gen rt') (RoutingDomain_CLASS_ID, rd0) = Some (rdId fwd))"
proof -
  have h: "getVnidForGroup (policy_manager rt0) epg0 = Some 0xA0A \<and>
      getBDForGroup (policy_manager rt0) epg0 = Some (BridgeDomain bd0)"
    by (simp add: rt0_def pm0_def)
  have r: "getRDForGroup (policy_manager rt0) epg0 = Some (RoutingDomain rd0)"
    by (simp add: rt0_def pm0_def)
  from get_fwd_info_result [of fwd0 rt0 epg0] h r show ?thesis
    by fastforce
qed

text \<open>
  C4. Whenever the pass for an existing group gets a group object from \<open>mk_group\<close>,
  \<open>handle_update\<close> returns and the NAT inside bindings for IPv4 and for IPv6 on the
  group's BVI are among the objects of the key afterwards. Nothing about floating
  addresses is read on the way.
\<close>

theorem nat_inside_unconditional:
  assumes ex: "groupExists (policy_manager rt) uri"
    and mk: "mk_group fwd_init rt (toString uri) uri (OM_mark (toString uri) om) = Inr (Some gepg, rest)"
  shows "\<exists>rt' om'. handle_update fwd_init rt uri om = Inr (rt', om') \<and>
           ObjNatBinding (get_bvi (get_bridge_domain gepg)) INPUT IPV4 INSIDE \<in> objs om' (toString uri) \<and>
           ObjNatBinding (get_bvi (get_bridge_domain gepg)) INPUT IPV6 INSIDE \<in> objs om' (toString uri)"
proof -
  obtain rt1 om1 where rest: "rest = (rt1, om1)" by (cases rest)
  show ?thesis
    using ex mk unfolding rest
    by (simp add: handle_update_def Let_def objs_sweep written_subnets_mono written_write)
qed

theorem nat_inside_unconditional_witness:
  "groupExists (policy_manager rt0) epg0 \<and>
   (\<exists>rt' om'. handle_update fwd0 rt0 epg0 om0 = Inr (rt', om') \<and>
      ObjNatBinding (Interface ''bvi-100'' type_BVI UP (Some (VomRouteDomain 100))
           (Some (MacAddress ''00:22:bd:f8:19:ff''))) INPUT IPV4 INSIDE \<in> objs om' (toString epg0))"
proof -
  have ex: "groupExists (policy_manager rt0) epg0" by (simp add: ex_defs)
  obtain g r where mk: "mk_group fwd0 rt0 (toString epg0) epg0 (OM_mark (toString epg0) om0) = Inr (Some g, r)"
    using mk0 by blast
  have g: "get_bvi (get_bridge_domain g) = Interface ''bvi-100'' type_BVI UP (Some (VomRouteDomain 100))
           (Some (MacAddress ''00:22:bd:f8:19:ff''))"
    using mk by (simp add: ex_defs run_defs) auto
  from nat_inside_unconditional [OF ex mk] g ex show ?thesis by auto
qed

text \<open>
  C5 (as amended). The loop skips a subnet that lacks its address or its prefix length:
  one of the two missing is enough, and the pass then is the pass without that subnet.
  For every subnet of the group that has both, after a pass that got a group object the
  key holds the stitched-internal routing entry for the subnet's prefix in the group's
  route domain, and, when the subnet has a virtual-router address, the binding of that
  address on the BVI and the bridge-domain ARP entry from that address to the BVI's
  link address.
\<close>

theorem subnets_rendered:
  assumes ex: "groupExists (policy_manager rt) uri"
    and mk: "mk_group fwd_init rt (toString uri) uri (OM_mark (toString uri) om) = Inr (Some gepg, rest)"
  shows "\<exists>rt' om'. handle_update fwd_init rt uri om = Inr (rt', om') \<and>
           (\<forall>sn \<in> set (getSubnetsForGroup (policy_manager rt) uri). \<forall>a l.
              getAddress sn = Some a \<and> getPrefixLen sn = Some l \<longrightarrow>
                ObjGbpSubnet (grd_get_route_domain (get_route_domain gepg))
                    (Low (Prefix (Address a) l)) STITCHED_INTERNAL \<in> objs om' (toString uri) \<and>
                (\<forall>raddr. getRouterIpForSubnet (policy_manager rt) sn = Some raddr \<longrightarrow>
                   ObjL3Binding (get_bvi (get_bridge_domain gepg)) (HostPrefix raddr)
                     \<in> objs om' (toString uri) \<and>
                   ObjBridgeDomainArpEntry (gbd_get_bridge_domain (get_bridge_domain gepg)) raddr
                       (L2AddressOf (get_bvi (get_bridge_domain gepg)))
                     \<in> objs om' (toString uri))) \<and>
           (\<forall>sn xs ys bvi bd rd o1. getAddress sn = None \<or> getPrefixLen sn = None \<longrightarrow>
              handle_update_subnets (policy_manager rt) (toString uri) bvi bd rd (xs @ sn # ys) o1 =
              handle_update_subnets (policy_manager rt) (toString uri) bvi bd rd (xs @ ys) o1)"
proof -
  obtain rt1 om1 where rest: "rest = (rt1, om1)" by (cases rest)
  have pm: "policy_manager rt1 = policy_manager rt"
    using mk unfolding rest by (rule mk_group_frame)
  let ?key = "toString uri"
  let ?bvi = "get_bvi (get_bridge_domain gepg)"
  let ?bd = "gbd_get_bridge_domain (get_bridge_domain gepg)"
  let ?rd = "grd_get_route_domain (get_route_domain gepg)"
  let ?om3 = "OM_write ?key (ObjNatBinding ?bvi INPUT IPV6 INSIDE)
                (OM_write ?key (ObjNatBinding ?bvi INPUT IPV4 INSIDE) om1)"
  let ?om4 = "handle_update_subnets (policy_manager rt) ?key ?bvi ?bd ?rd
                (getSubnetsForGroup (policy_manager rt) uri) ?om3"
  have run: "handle_update fwd_init rt uri om = Inr (rt1, OM_sweep ?key ?om4)"
    using ex mk unfolding rest by (simp add: handle_update_def Let_def pm)
  have routes: "\<forall>sn \<in> set (getSubnetsForGroup (policy_manager rt) uri). \<forall>a l.
      getAddress sn = Some a \<and> getPrefixLen sn = Some l \<longrightarrow>
        ObjGbpSubnet ?rd (Low (Prefix (Address a) l)) STITCHED_INTERNAL \<in> written ?om4 ?key \<and>
        (\<forall>raddr. getRouterIpForSubnet (policy_manager rt) sn = Some raddr \<longrightarrow>
           ObjL3Binding ?bvi (HostPrefix raddr) \<in> written ?om4 ?key \<and>
           ObjBridgeDomainArpEntry ?bd raddr (L2AddressOf ?bvi) \<in> written ?om4 ?key)"
    by (intro ballI allI impI conjI) (simp_all add: subnets_route subnets_router)
  have skip: "\<forall>sn xs ys bvi bd rd o1. getAddress sn = None \<or> getPrefixLen sn = None \<longrightarrow>
      handle_update_subnets (policy_manager rt) ?key bvi bd rd (xs @ sn # ys) o1 =
      handle_update_subnets (policy_manager rt) ?key bvi bd rd (xs @ ys) o1"
    by (intro allI impI) (rule subnets_skip)
  from run routes skip show ?thesis
    by (simp add: objs_sweep)
qed

theorem subnets_rendered_witness:
  "groupExists (policy_manager rt0) epg0 \<and>
   getSubnetsForGroup (policy_manager rt0) epg0 = [sn0] \<and>
   getAddress sn0 = Some ''10.20.44.0'' \<and> getPrefixLen sn0 = Some 24 \<and>
   getRouterIpForSubnet (policy_manager rt0) sn0 = Some (Address ''10.20.44.1'') \<and>
   (\<exists>rt' om'. handle_update fwd0 rt0 epg0 om0 = Inr (rt', om') \<and>
      ObjGbpSubnet (VomRouteDomain 100) (Low (Prefix (Address ''10.20.44.0'') 24)) STITCHED_INTERNAL
        \<in> objs om' (toString epg0) \<and>
      ObjL3Binding bvi100 (HostPrefix (Address ''10.20.44.1'')) \<in> objs om' (toString epg0) \<and>
      ObjBridgeDomainArpEntry (VomBridgeDomain 100 learning_OFF) (Address ''10.20.44.1'')
          (L2AddressOf bvi100) \<in> objs om' (toString epg0))"
proof -
  have ex: "groupExists (policy_manager rt0) epg0" by (simp add: ex_defs)
  obtain g r where mk: "mk_group fwd0 rt0 (toString epg0) epg0 (OM_mark (toString epg0) om0) = Inr (Some g, r)"
    using mk0 by blast
  have g: "get_bvi (get_bridge_domain g) = bvi100 \<and>
           gbd_get_bridge_domain (get_bridge_domain g) = VomBridgeDomain 100 learning_OFF \<and>
           grd_get_route_domain (get_route_domain g) = VomRouteDomain 100"
    using mk by (simp add: ex_defs run_defs bvi100_def) auto
  have sn: "getSubnetsForGroup (policy_manager rt0) epg0 = [sn0] \<and>
            getAddress sn0 = Some ''10.20.44.0'' \<and> getPrefixLen sn0 = Some 24 \<and>
            getRouterIpForSubnet (policy_manager rt0) sn0 = Some (Address ''10.20.44.1'')"
    by (simp add: ex_defs)
  from subnets_rendered [OF ex mk] g ex sn show ?thesis
    by auto
qed

text \<open>
  Skipping only subnets that lack both does not hold: a subnet with an address and a
  virtual-router address but no prefix length does not lack both, yet the pass, which
  succeeds and writes the NAT bindings, leaves neither a routing entry nor the address
  binding.
\<close>

theorem subnet_without_prefix_length_skipped:
  "getSubnetsForGroup (policy_manager rt_no_len) epg0 = [sn_no_len] \<and>
   getAddress sn_no_len = Some ''10.20.44.0'' \<and>
   getPrefixLen sn_no_len = None \<and>
   getRouterIpForSubnet (policy_manager rt_no_len) sn_no_len = Some (Address ''10.20.44.1'') \<and>
   \<not> isl (handle_update fwd0 rt_no_len epg0 om0) \<and>
   ObjNatBinding bvi100 INPUT IPV4 INSIDE
     \<in> objs (snd (projr (handle_update fwd0 rt_no_len epg0 om0))) (toString epg0) \<and>
   ObjL3Binding bvi100 (HostPrefix (Address ''10.20.44.1''))
     \<notin> objs (snd (projr (handle_update fwd0 rt_no_len epg0 om0))) (toString epg0) \<and>
   objs (snd (projr (handle_update fwd0 rt_no_len epg0 om0))) (toString epg0)
     \<inter> Collect is_gbp_subnet = {}"
proof -
  have pol: "getSubnetsForGroup (policy_manager rt_no_len) epg0 = [sn_no_len] \<and>
      getAddress sn_no_len = Some ''10.20.44.0'' \<and> getPrefixLen sn_no_len = None \<and>
      getRouterIpForSubnet (policy_manager rt_no_len) sn_no_len = Some (Address ''10.20.44.1'')"
    by (simp add: rt_no_len_def sn_no_len_def rt0_def pm0_def router_ip_def)
  obtain rt' om' where run: "handle_update fwd0 rt_no_len epg0 om0 = Inr (rt', om')"
      and objs: "ObjNatBinding bvi100 INPUT IPV4 INSIDE \<in> objs om' (toString epg0)"
        "ObjL3Binding bvi100 (HostPrefix (Address ''10.20.44.1'')) \<notin> objs om' (toString epg0)"
        "objs om' (toString epg0) \<inter> Collect is_gbp_subnet = {}"
    using no_len_run by blast
  from pol objs show ?thesis
    by (simp add: run)
qed

text \<open>
  C6. \<open>mk_interface\<close> picks the encapsulation link by \<open>m_type\<close> alone: in VXLAN mode
  the tunnel from \<open>m_vxlan_src\<close> to \<open>m_vxlan_dst\<close> with the vnid, in VLAN mode the
  sub-interface of the uplink interface tagged with the vnid. The link is written under
  the caller's key, and its interface type is VXLAN exactly in VXLAN mode.
\<close>

theorem mk_interface_by_mode:
  "(m_type up = VXLAN \<longrightarrow>
      mk_interface up uuid vni om =
        Inr (VxlanTunnel (m_vxlan_src up) (m_vxlan_dst up) vni None mode_STANDARD,
             OM_write uuid
               (ObjInterface (VxlanTunnel (m_vxlan_src up) (m_vxlan_dst up) vni None mode_STANDARD))
               om)) \<and>
   (\<forall>u. m_type up = VLAN \<and> m_uplink up = Some u \<longrightarrow>
      mk_interface up uuid vni om =
        Inr (SubInterface u UP vni, OM_write uuid (ObjInterface (SubInterface u UP vni)) om)) \<and>
   (\<forall>link om'. mk_interface up uuid vni om = Inr (link, om') \<longrightarrow>
      (itf_type link = type_VXLAN) = (m_type up = VXLAN) \<and>
      (itf_type link = type_VLAN) = (m_type up = VLAN) \<and>
      ObjInterface link \<in> objs om' uuid)"
  by (auto simp: mk_interface_def Let_def OM_write_def split: uplink_type_t.splits option.splits)

theorem mk_interface_by_mode_witness:
  "m_type uplink0 = VLAN \<and> m_uplink uplink0 = Some phy0 \<and>
   mk_interface uplink0 ''epg0'' 0xA0A om0 =
     Inr (SubInterface phy0 UP 0xA0A, OM_write ''epg0'' (ObjInterface (SubInterface phy0 UP 0xA0A)) om0) \<and>
   m_type uplink_vxlan = VXLAN \<and>
   mk_interface uplink_vxlan ''epg0'' 0xA0A om0 =
     Inr (VxlanTunnel (Address ''192.168.1.10'') (Address ''10.0.0.1'') 0xA0A None mode_STANDARD,
          OM_write ''epg0''
            (ObjInterface (VxlanTunnel (Address ''192.168.1.10'') (Address ''10.0.0.1'') 0xA0A None
               mode_STANDARD)) om0)"
proof -
  have a: "m_type uplink0 = VLAN \<and> m_uplink uplink0 = Some phy0"
    by (simp add: uplink0_def)
  have b: "m_type uplink_vxlan = VXLAN \<and> m_vxlan_src uplink_vxlan = Address ''192.168.1.10'' \<and>
           m_vxlan_dst uplink_vxlan = Address ''10.0.0.1''"
    by (simp add: uplink_vxlan_def set_vxlan_def)
  from mk_interface_by_mode [of uplink0 "''epg0''" "0xA0A" om0]
       mk_interface_by_mode [of uplink_vxlan "''epg0''" "0xA0A" om0] a b
  show ?thesis by simp
qed

text \<open>
  C7. In stitched mode (no spine proxy for the group's vnid), with forwarding
  information resolved and the uplink giving an encapsulation link, \<open>mk_group\<close>
  returns a group object and has written the binding of that link into the group's
  bridge domain; of the bindings of the link written in the pass, the rewrite is pop-1
  with the group's vnid exactly when the link's type is not VXLAN, and absent exactly
  when it is.
\<close>

theorem stitched_link_binding:
  assumes fwd: "get_fwd_info fwd_init rt uri = Inr (fwd, rt1)"
    and st: "spine_proxy (uplink rt) (vnid fwd) = None"
    and lk: "mk_interface (uplink rt) key (vnid fwd) om = Inr (link, oml)"
  shows "\<exists>g om'. mk_group fwd_init rt key uri om = Inr (Some g, rt1, om') \<and>
           ObjL2Binding (L2Binding link (VomBridgeDomain (bdId fwd) learning_OFF)
               (if itf_type link \<noteq> type_VXLAN then Some (L2_VTR_POP_1, vnid fwd) else None))
             \<in> written om' key \<and>
           (\<forall>vtr. ObjL2Binding (L2Binding link (VomBridgeDomain (bdId fwd) learning_OFF) vtr)
                    \<in> written om' key - written om key \<longrightarrow>
                  (vtr = Some (L2_VTR_POP_1, vnid fwd)) = (itf_type link \<noteq> type_VXLAN) \<and>
                  (vtr = None) = (itf_type link = type_VXLAN))"
proof -
  let ?bd = "VomBridgeDomain (bdId fwd) learning_OFF"
  let ?rd = "VomRouteDomain (rdId fwd)"
  let ?om2 = "OM_write key (ObjRouteDomain ?rd) (OM_write key (ObjBridgeDomain ?bd) om)"
  obtain bvi om3 where bvi: "mk_bvi rt1 key ?bd ?rd None ?om2 = (bvi, om3)"
    by (cases "mk_bvi rt1 key ?bd ?rd None ?om2")
  have up: "uplink rt1 = uplink rt"
    using fwd by (simp add: get_fwd_info_frame)
  have lk3: "mk_interface (uplink rt) key (vnid fwd) om3 = Inr (link, OM_write key (ObjInterface link) om3)"
    using lk by (rule mk_interface_any_om)
  have w3: "written om3 key =
       insert (ObjBridgeDomainEntry ?bd (L2AddressOf bvi) bvi)
         (insert (ObjL2Binding (L2Binding bvi ?bd None))
            (insert (ObjInterface bvi) (insert (ObjRouteDomain ?rd) (insert (ObjBridgeDomain ?bd) (written om key)))))"
    using mk_bvi_written [OF bvi] by (simp add: written_write)
  have ne: "link \<noteq> bvi"
  proof -
    obtain n t a d m where "bvi = Interface n t a d m"
      using mk_bvi_plain [OF bvi] by blast
    then show ?thesis
      using mk_interface_not_plain [OF lk, of n t a d m] by simp
  qed
  show ?thesis
    using fwd st bvi up lk3 ne
    by (auto simp: mk_group_def mk_group_stitched_def Let_def written_write w3)
qed

theorem stitched_link_binding_witness:
  "spine_proxy (uplink rt0) 0xA0A = None \<and>
   (\<exists>g r om'. mk_group fwd0 rt0 ''epg0'' epg0 om0 = Inr (Some g, r, om') \<and>
      ObjL2Binding (L2Binding (SubInterface phy0 UP 0xA0A) (VomBridgeDomain 100 learning_OFF)
          (Some (L2_VTR_POP_1, 0xA0A))) \<in> written om' ''epg0'') \<and>
   spine_proxy (uplink rt_stitched_vxlan) 0xA0A = None \<and>
   (\<exists>g r om'. mk_group fwd0 rt_stitched_vxlan ''epg0'' epg0 om0 = Inr (Some g, r, om') \<and>
      ObjL2Binding (L2Binding
          (VxlanTunnel (Address ''192.168.1.10'') (Address ''10.0.0.1'') 0xA0A None mode_STANDARD)
          (VomBridgeDomain 100 learning_OFF) None) \<in> written om' ''epg0'')"
proof -
  obtain fwd rt1 where f: "get_fwd_info fwd0 rt0 epg0 = Inr (fwd, rt1)"
      and v: "vnid fwd = 0xA0A" and b: "bdId fwd = 100"
    using fwd_rt0 by blast
  have s: "spine_proxy (uplink rt0) (vnid fwd) = None"
    by (simp add: rt0_def uplink0_def)
  have l: "mk_interface (uplink rt0) ''epg0'' (vnid fwd) om0 =
             Inr (SubInterface phy0 UP 0xA0A, OM_write ''epg0'' (ObjInterface (SubInterface phy0 UP 0xA0A)) om0)"
    by (simp add: v rt0_def uplink0_def mk_interface_def Let_def)
  obtain fwd' rt1' where f': "get_fwd_info fwd0 rt_stitched_vxlan epg0 = Inr (fwd', rt1')"
      and v': "vnid fwd' = 0xA0A" and b': "bdId fwd' = 100"
    using fwd_rt_stitched_vxlan by blast
  have s': "spine_proxy (uplink rt_stitched_vxlan) (vnid fwd') = None"
    by (simp add: rt_stitched_vxlan_def uplink_vxlan_def set_vxlan_def uplink0_def)
  let ?vt = "VxlanTunnel (Address ''192.168.1.10'') (Address ''10.0.0.1'') 0xA0A None mode_STANDARD"
  have l': "mk_interface (uplink rt_stitched_vxlan) ''epg0'' (vnid fwd') om0 =
             Inr (?vt, OM_write ''epg0'' (ObjInterface ?vt) om0)"
    by (simp add: v' rt_stitched_vxlan_def uplink_vxlan_def set_vxlan_def uplink0_def mk_interface_def Let_def)
  from stitched_link_binding [OF f s l] stitched_link_binding [OF f' s' l'] s s' v b v' b'
  show ?thesis by auto
qed

text \<open>
  C8. If the DHCP client already holds a lease that is past Discover when \<open>configure\<close>
  runs, \<open>configure\<close> applies it at once: the TAP interface is configured from the
  lease's host prefix and the lease's address becomes the VXLAN source, exactly as
  \<open>handle_dhcp_event_i\<close> would do after a \<open>configure\<close> that found no lease.
\<close>

theorem configure_applies_held_lease:
  assumes "lease_state l \<noteq> DISCOVER"
  shows "\<exists>up' om'. configure fqdn (Some l) (up, om) = Inr (up', om') \<and>
           m_vxlan_src up' = pfx_address (host_prefix l) \<and>
           ObjInterface (TapInterface ''tuntap-0'' type_TAP UP (host_prefix l))
             \<in> objs om' UPLINK_KEY \<and>
           configure fqdn (Some l) (up, om) =
             (case configure fqdn None (up, om) of
                Inl f \<Rightarrow> Inl f
              | Inr s \<Rightarrow> handle_dhcp_event_i (Some l) s)"
proof -
  obtain up1 om7 u where none: "configure fqdn None (up, om) = Inr (up1, om7)"
      and u: "m_uplink up1 = Some u"
      and some: "configure fqdn (Some l) (up, om) =
        (if lease_state l \<noteq> DISCOVER then
           (case configure_tap up1 (host_prefix l) om7 of
              Inl f \<Rightarrow> Inl f
            | Inr om8 \<Rightarrow> Inr (up1\<lparr>m_vxlan_src := pfx_address (host_prefix l)\<rparr>, om8))
         else Inr (up1, om7))"
    using configure_no_lease [of fqdn up om] by blast
  obtain om8 where tap: "configure_tap up1 (host_prefix l) om7 = Inr om8"
      and mem: "ObjInterface (TapInterface ''tuntap-0'' type_TAP UP (host_prefix l)) \<in> objs om8 UPLINK_KEY"
    using configure_tap_Some [OF u] by blast
  from assms none some tap mem show ?thesis
    by (simp add: handle_dhcp_event_i_def)
qed

theorem configure_applies_held_lease_witness:
  "lease_state lease0 \<noteq> DISCOVER \<and>
   (\<exists>up' om'. configure ''host.example.org'' (Some lease0) (uplink0\<lparr>m_uplink := None\<rparr>, om0) =
        Inr (up', om') \<and>
      m_vxlan_src up' = Address ''192.168.1.10'' \<and>
      ObjInterface (TapInterface ''tuntap-0'' type_TAP UP (Prefix (Address ''192.168.1.10'') 24))
        \<in> objs om' UPLINK_KEY)"
proof -
  have h: "lease_state lease0 \<noteq> DISCOVER"
    by (simp add: lease0_def)
  have p: "host_prefix lease0 = Prefix (Address ''192.168.1.10'') 24"
    by (simp add: lease0_def)
  from configure_applies_held_lease [OF h, of "''host.example.org''" "uplink0\<lparr>m_uplink := None\<rparr>" om0] h p
  show ?thesis by auto
qed

text \<open>
  C9. \<open>handle_dhcp_event\<close> leaves the uplink and the object model as they are and only
  appends one task to the queue; running that task is \<open>handle_dhcp_event_i\<close>, and it
  is there that the TAP interface is configured and the tunnel source recorded.
\<close>

theorem dhcp_event_redispatched:
  "handle_dhcp_event lease (up, om, q) =
     (up, om, q @ [(''dhcp-config-event'', HandleDhcpEventI lease)]) \<and>
   run_task (HandleDhcpEventI lease) (up, om) = handle_dhcp_event_i lease (up, om) \<and>
   (\<forall>l u. lease = Some l \<and> m_uplink up = Some u \<longrightarrow>
      (\<exists>om'. handle_dhcp_event_i lease (up, om) =
                Inr (up\<lparr>m_vxlan_src := pfx_address (host_prefix l)\<rparr>, om') \<and>
         ObjInterface (TapInterface ''tuntap-0'' type_TAP UP (host_prefix l))
           \<in> objs om' UPLINK_KEY))"
  by (auto simp: handle_dhcp_event_def dispatch_def handle_dhcp_event_i_def configure_tap_def
      Let_def OM_write_def OM_commit_def)

theorem dhcp_event_redispatched_witness:
  "m_uplink uplink0 = Some phy0 \<and>
   handle_dhcp_event (Some lease0) (uplink0, om0, []) =
     (uplink0, om0, [(''dhcp-config-event'', HandleDhcpEventI (Some lease0))]) \<and>
   (\<exists>om'. run_task (HandleDhcpEventI (Some lease0)) (uplink0, om0) =
            Inr (uplink0\<lparr>m_vxlan_src := Address ''192.168.1.10''\<rparr>, om') \<and>
      ObjInterface (TapInterface ''tuntap-0'' type_TAP UP (Prefix (Address ''192.168.1.10'') 24))
        \<in> objs om' UPLINK_KEY)"
proof -
  have u: "m_uplink uplink0 = Some phy0"
    by (simp add: uplink0_def)
  have p: "host_prefix lease0 = Prefix (Address ''192.168.1.10'') 24"
    by (simp add: lease0_def)
  from dhcp_event_redispatched [of "Some lease0" uplink0 om0 "[]"] u p
  show ?thesis by auto
qed

text \<open>
  C10. Transport mode with forwarding information resolved, but the policy lacks the
  bridge domain's vnid or its multicast address: the branch leaves \<open>gepg\<close> empty and
  \<open>mk_group\<close> then writes \<open>*gepg\<close>. The run ends in the null dereference, in
  \<open>mk_group\<close> and so in \<open>handle_update\<close>; it does not return the empty pointer.
\<close>

theorem transport_incomplete_dereferences_null:
  assumes ex: "groupExists (policy_manager rt) uri"
    and fwd: "get_fwd_info fwd_init rt uri = Inr (fwd, rt1)"
    and sp: "spine_proxy (uplink rt) (vnid fwd) = Some sp"
    and miss: "getBDVnidForGroup (policy_manager rt) uri = None \<or>
               getBDMulticastIPForGroup (policy_manager rt) uri = None"
  shows "mk_group fwd_init rt key uri om = Inl NullDereference \<and>
         handle_update fwd_init rt uri om = Inl NullDereference"
proof
  show "mk_group fwd_init rt key uri om = Inl NullDereference"
    using fwd sp miss by (rule mk_group_transport_incomplete)
next
  have "mk_group fwd_init rt (toString uri) uri (OM_mark (toString uri) om) = Inl NullDereference"
    using fwd sp miss by (rule mk_group_transport_incomplete)
  with ex show "handle_update fwd_init rt uri om = Inl NullDereference"
    by (simp add: handle_update_def Let_def)
qed

theorem transport_incomplete_dereferences_null_witness:
  "groupExists (policy_manager rt_transport) epg0 \<and>
   \<not> isl (get_fwd_info fwd0 rt_transport epg0) \<and>
   spine_proxy (uplink rt_transport) 0xA0A = Some sp0 \<and>
   getBDVnidForGroup (policy_manager rt_transport) epg0 = None \<and>
   mk_group fwd0 rt_transport (toString epg0) epg0 (OM_mark (toString epg0) om0) = Inl NullDereference \<and>
   handle_update fwd0 rt_transport epg0 om0 = Inl NullDereference"
proof -
  obtain fwd rt1 where f: "get_fwd_info fwd0 rt_transport epg0 = Inr (fwd, rt1)"
      and v: "vnid fwd = 0xA0A"
    using fwd_rt_transport by blast
  have ex: "groupExists (policy_manager rt_transport) epg0"
    by (simp add: rt_transport_def rt0_def pm0_def)
  have s: "spine_proxy (uplink rt_transport) (vnid fwd) = Some sp0"
    by (simp add: rt_transport_def rt0_def)
  have m: "getBDVnidForGroup (policy_manager rt_transport) epg0 = None"
    by (simp add: rt_transport_def rt0_def pm0_def)
  have m': "getBDVnidForGroup (policy_manager rt_transport) epg0 = None \<or>
            getBDMulticastIPForGroup (policy_manager rt_transport) epg0 = None"
    using m by simp
  from transport_incomplete_dereferences_null [OF ex f s m', of "toString epg0" "OM_mark (toString epg0) om0"]
       transport_incomplete_dereferences_null [OF ex f s m', of "toString epg0" om0]
       ex f s m v
  show ?thesis by simp
qed

end
